theory Spec2Isabelle
  imports Main
begin

section \<open>Values of a request\<close>

text \<open>
  The handlers destructure \<^verbatim>\<open>req.body\<close>, \<^verbatim>\<open>req.query\<close> and \<^verbatim>\<open>req.params\<close>.
  A field that is tested for presence (\<^verbatim>\<open>campaignId\<close>) is kept as a JavaScript value:
  absent (\<open>JUndefined\<close>), \<open>null\<close>, a boolean, a number (at its integer values), a
  string, or an object or array (\<open>JObject\<close>, opaque). The text fields of a voucher are
  \<open>string option\<close>: \<open>None\<close> is an absent or \<open>null\<close> field, which every backend
  stores as NULL.
\<close>

datatype jsval = JUndefined | JNull | JBool bool | JNum int | JStr string | JObject

text \<open>The test \<^verbatim>\<open>if (campaignId)\<close> and its negation \<^verbatim>\<open>!campaignId\<close>.\<close>

fun truthy :: "jsval \<Rightarrow> bool" where
  "truthy JUndefined = False"
| "truthy JNull = False"
| "truthy (JBool b) = b"
| "truthy (JNum n) = (n \<noteq> 0)"
| "truthy (JStr s) = (s \<noteq> [])"
| "truthy JObject = True"

section \<open>Errors and responses\<close>

text \<open>
  Every handler wraps its body in \<^verbatim>\<open>try { ... } catch (err)\<close> and answers a caught
  exception with status 500 and its message. Two kinds of exception are modelled: the
  database client refusing a bound parameter (\<open>DriverError\<close>, for instance
  \<^verbatim>\<open>new ObjectId(campaignId)\<close> on a malformed identifier), and JavaScript's
  \<open>TypeError\<close> on reading the named property of \<^verbatim>\<open>undefined\<close>.
\<close>

datatype error = DriverError string | TypeError string

datatype response =
    Json_success bool
  | Json_count jsval
  | Status400 string
  | Status500 error

section \<open>Tables and collections\<close>

type_synonym key = int

record voucher =
  voucher_id :: key
  username :: "string option"
  value_col :: "string option"
  prize :: "string option"
  status :: "string option"
  claimedAt :: "string option"

record campaign =
  campaign_id :: key
  content :: string
  quantity :: int
  campaign_status :: "string option"
  created_at :: string

text \<open>
  The store holds the two tables the handlers below touch, and the counter from which an
  inserted voucher takes its identifier (the SERIAL or AUTOINCREMENT column; the
  ObjectId the MongoDB client generates).
\<close>

record store =
  vouchers :: "voucher list"
  voucher_campaigns :: "campaign list"
  next_id :: key

text \<open>The body of \<^verbatim>\<open>POST /api/vouchers\<close>.\<close>

record voucher_body =
  body_username :: "string option"
  body_value :: "string option"
  body_prize :: "string option"
  body_status :: "string option"
  body_claimedAt :: "string option"
  body_campaignId :: jsval

text \<open>
  The database client is not part of the repository. How it turns the JavaScript value
  bound to an identifier into a key, or throws, is a parameter of every handler that
  looks a row up by identifier.
\<close>

type_synonym driver = "jsval \<Rightarrow> error + key"

text \<open>\<^verbatim>\<open>SELECT * FROM voucher_campaigns WHERE id = $1\<close>, first row, and
  \<^verbatim>\<open>voucher_campaigns.findOne({ _id })\<close>.\<close>

definition dbGet_campaign :: "store \<Rightarrow> key \<Rightarrow> campaign option" where
  "dbGet_campaign st k = find (\<lambda>c. campaign_id c = k) (voucher_campaigns st)"

definition findOne_campaign :: "store \<Rightarrow> key \<Rightarrow> campaign option" where
  "findOne_campaign st k = find (\<lambda>c. campaign_id c = k) (voucher_campaigns st)"

text \<open>\<^verbatim>\<open>vouchers.countDocuments({ value })\<close> and
  \<^verbatim>\<open>SELECT COUNT(*) FROM vouchers WHERE value = $1\<close> for a text.\<close>

definition countDocuments :: "voucher list \<Rightarrow> string \<Rightarrow> nat" where
  "countDocuments vs s = length (filter (\<lambda>v. value_col v = Some s) vs)"

text \<open>
  \<^verbatim>\<open>SELECT COUNT(*) FROM vouchers WHERE value = (SELECT content FROM voucher_campaigns
  WHERE id = $1)\<close>: without a campaign row the subquery is NULL, and no row equals NULL.
\<close>

definition count_for_campaign :: "store \<Rightarrow> key \<Rightarrow> nat" where
  "count_for_campaign st k =
     (case dbGet_campaign st k of
        None \<Rightarrow> 0
      | Some c \<Rightarrow> countDocuments (vouchers st) (content c))"

text \<open>The INSERT, and \<^verbatim>\<open>vouchers.insertOne\<close>: the fields of the body as they came.\<close>

definition insert_voucher :: "store \<Rightarrow> voucher_body \<Rightarrow> store" where
  "insert_voucher st b =
     st\<lparr>vouchers := vouchers st @
          [\<lparr>voucher_id = next_id st, username = body_username b, value_col = body_value b,
            prize = body_prize b, status = body_status b, claimedAt = body_claimedAt b\<rparr>],
        next_id := next_id st + 1\<rparr>"

section \<open>POST /api/vouchers\<close>

text \<open>
  The relational variants (PostgreSQL, sqlite3, better-sqlite3) share one text. The guard
  returns \<open>Some\<close> response where the handler returns early or throws, \<open>None\<close> where
  control reaches the INSERT. The row count is read before the campaign, and
  \<^verbatim>\<open>campaign.quantity\<close> is read with no test that a campaign row came back. The
  comparison \<^verbatim>\<open>countRow.count >= campaign.quantity\<close> is numeric also where the client
  returns the count as decimal text: JavaScript converts the string to its number.
\<close>

definition sql_stock_guard :: "driver \<Rightarrow> store \<Rightarrow> jsval \<Rightarrow> response option" where
  "sql_stock_guard bind st campaignId =
     (case bind campaignId of
        Inl e \<Rightarrow> Some (Status500 e)
      | Inr k \<Rightarrow>
          (let countRow = count_for_campaign st k;
               campaign = dbGet_campaign st k
           in case campaign of
                None \<Rightarrow> Some (Status500 (TypeError ''quantity''))
              | Some c \<Rightarrow>
                  if quantity c \<le> int countRow then Some (Status400 ''Out of stock'')
                  else None))"

definition sql_post_vouchers :: "driver \<Rightarrow> store \<Rightarrow> voucher_body \<Rightarrow> store \<times> response" where
  "sql_post_vouchers bind st b =
     (case (if truthy (body_campaignId b) then sql_stock_guard bind st (body_campaignId b)
            else None) of
        Some r \<Rightarrow> (st, r)
      | None \<Rightarrow> (insert_voucher st b, Json_success True))"

text \<open>The MongoDB variant tests the campaign before it counts.\<close>

definition mongo_stock_guard :: "driver \<Rightarrow> store \<Rightarrow> jsval \<Rightarrow> response option" where
  "mongo_stock_guard objectId st campaignId =
     (case objectId campaignId of
        Inl e \<Rightarrow> Some (Status500 e)
      | Inr k \<Rightarrow>
          (case findOne_campaign st k of
             None \<Rightarrow> Some (Status400 ''Campaign not found'')
           | Some campaign \<Rightarrow>
               (let count = countDocuments (vouchers st) (content campaign)
                in if quantity campaign \<le> int count then Some (Status400 ''Out of stock'')
                   else None)))"

definition mongo_post_vouchers :: "driver \<Rightarrow> store \<Rightarrow> voucher_body \<Rightarrow> store \<times> response" where
  "mongo_post_vouchers objectId st b =
     (case (if truthy (body_campaignId b) then mongo_stock_guard objectId st (body_campaignId b)
            else None) of
        Some r \<Rightarrow> (st, r)
      | None \<Rightarrow> (insert_voucher st b, Json_success True))"

text \<open>Requests served one after the other, each on the store the previous one left.\<close>

fun run :: "(store \<Rightarrow> 'r \<Rightarrow> store \<times> response) \<Rightarrow> store \<Rightarrow> 'r list \<Rightarrow> store \<times> response list" where
  "run h st [] = (st, [])"
| "run h st (r # rs) =
     (case h st r of (st1, a) \<Rightarrow> (case run h st1 rs of (st2, as) \<Rightarrow> (st2, a # as)))"

section \<open>PUT /api/voucher/:id/status\<close>

text \<open>
  The three UPDATE statements of the relational variants, chosen by \<^verbatim>\<open>status === 'Issued'\<close>
  and \<^verbatim>\<open>status === 'Void'\<close>; \<open>now\<close> is \<^verbatim>\<open>new Date().toISOString()\<close>.
\<close>

definition sql_set_clause :: "string \<Rightarrow> string option \<Rightarrow> voucher \<Rightarrow> voucher" where
  "sql_set_clause now st_new v =
     (if st_new = Some ''Issued'' then v\<lparr>status := st_new, claimedAt := Some now\<rparr>
      else if st_new = Some ''Void'' then v\<lparr>status := st_new, claimedAt := None\<rparr>
      else v\<lparr>status := st_new\<rparr>)"

text \<open>\<^verbatim>\<open>UPDATE vouchers SET ... WHERE id = k\<close>: every row with that identifier.\<close>

definition sql_update_where_id :: "key \<Rightarrow> (voucher \<Rightarrow> voucher) \<Rightarrow> voucher list \<Rightarrow> voucher list" where
  "sql_update_where_id k f vs = map (\<lambda>v. if voucher_id v = k then f v else v) vs"

text \<open>The relational handler answers \<^verbatim>\<open>{ success: true }\<close> whenever the UPDATE did not throw.\<close>

definition sql_put_voucher_status ::
    "driver \<Rightarrow> string \<Rightarrow> store \<Rightarrow> string \<Rightarrow> string option \<Rightarrow> store \<times> response" where
  "sql_put_voucher_status bind now st idp st_new =
     (case bind (JStr idp) of
        Inl e \<Rightarrow> (st, Status500 e)
      | Inr k \<Rightarrow>
          (st\<lparr>vouchers := sql_update_where_id k (sql_set_clause now st_new) (vouchers st)\<rparr>,
           Json_success True))"

text \<open>
  The MongoDB handler builds the \<^verbatim>\<open>$set\<close> document: \<open>status\<close> always, \<open>claimedAt\<close>
  only for the two distinguished statuses (\<open>None\<close> here is a field left out of the
  document, \<open>Some None\<close> the field set to \<open>null\<close>).
\<close>

record update_doc =
  upd_status :: "string option"
  upd_claimedAt :: "string option option"

definition mongo_update_doc :: "string \<Rightarrow> string option \<Rightarrow> update_doc" where
  "mongo_update_doc now st_new =
     (let update = \<lparr>upd_status = st_new, upd_claimedAt = None\<rparr>;
          update = (if st_new = Some ''Issued'' then update\<lparr>upd_claimedAt := Some (Some now)\<rparr>
                    else update);
          update = (if st_new = Some ''Void'' then update\<lparr>upd_claimedAt := Some None\<rparr>
                    else update)
      in update)"

definition apply_set :: "update_doc \<Rightarrow> voucher \<Rightarrow> voucher" where
  "apply_set u v =
     v\<lparr>status := upd_status u,
       claimedAt := (case upd_claimedAt u of None \<Rightarrow> claimedAt v | Some c \<Rightarrow> c)\<rparr>"

text \<open>
  \<^verbatim>\<open>updateOne\<close> rewrites the first document with the identifier, and reports as
  \<^verbatim>\<open>modifiedCount\<close> whether that document changed.
\<close>

fun updateOne :: "key \<Rightarrow> (voucher \<Rightarrow> voucher) \<Rightarrow> voucher list \<Rightarrow> voucher list \<times> nat" where
  "updateOne k f [] = ([], 0)"
| "updateOne k f (v # vs) =
     (if voucher_id v = k then (f v # vs, if f v = v then 0 else 1)
      else (case updateOne k f vs of (vs', n) \<Rightarrow> (v # vs', n)))"

definition mongo_put_voucher_status ::
    "driver \<Rightarrow> string \<Rightarrow> store \<Rightarrow> string \<Rightarrow> string option \<Rightarrow> store \<times> response" where
  "mongo_put_voucher_status objectId now st idp st_new =
     (let update = mongo_update_doc now st_new
      in case objectId (JStr idp) of
           Inl e \<Rightarrow> (st, Status500 e)
         | Inr k \<Rightarrow>
             (case updateOne k (apply_set update) (vouchers st) of
                (vs', modifiedCount) \<Rightarrow> (st\<lparr>vouchers := vs'\<rparr>, Json_success (0 < modifiedCount))))"

section \<open>GET /api/vouchers/count\<close>

text \<open>
  The handlers send \<^verbatim>\<open>{ count: 0 }\<close>, the number, where they return early. Where the
  campaign is found, the relational handlers send \<^verbatim>\<open>row.count\<close> as the client returned
  the \<^verbatim>\<open>COUNT(*)\<close> column: a number from sqlite3 and better-sqlite3, the decimal text
  of the number from node-postgres, which hands a \<^verbatim>\<open>bigint\<close> over as a string. The form
  of that column is the second parameter of the relational handler. MongoDB's
  \<^verbatim>\<open>countDocuments\<close> yields a number.
\<close>

type_synonym count_column = "nat \<Rightarrow> jsval"

fun decimal_text :: "nat \<Rightarrow> string" where
  "decimal_text n =
     (if n < 10 then [char_of (48 + n)]
      else decimal_text (n div 10) @ [char_of (48 + n mod 10)])"

declare decimal_text.simps [simp del]

definition number_count :: count_column where
  "number_count n = JNum (int n)"

definition text_count :: count_column where
  "text_count n = JStr (decimal_text n)"

definition sql_get_vouchers_count :: "driver \<Rightarrow> count_column \<Rightarrow> store \<Rightarrow> jsval \<Rightarrow> response" where
  "sql_get_vouchers_count bind column st campaignId =
     (if \<not> truthy campaignId then Json_count (JNum 0)
      else case bind campaignId of
             Inl e \<Rightarrow> Status500 e
           | Inr k \<Rightarrow>
               (case dbGet_campaign st k of
                  None \<Rightarrow> Json_count (JNum 0)
                | Some campaign \<Rightarrow>
                    Json_count (column (countDocuments (vouchers st) (content campaign)))))"

definition mongo_get_vouchers_count :: "driver \<Rightarrow> store \<Rightarrow> jsval \<Rightarrow> response" where
  "mongo_get_vouchers_count objectId st campaignId =
     (if \<not> truthy campaignId then Json_count (JNum 0)
      else case objectId campaignId of
             Inl e \<Rightarrow> Status500 e
           | Inr k \<Rightarrow>
               (case findOne_campaign st k of
                  None \<Rightarrow> Json_count (JNum 0)
                | Some campaign \<Rightarrow>
                    Json_count (JNum (int (countDocuments (vouchers st) (content campaign))))))"

section \<open>A driver for worked examples\<close>

text \<open>
  A client in the manner of an integer key column: a number is its own key, a string of
  decimal digits is read as the number it writes, and anything else is refused.
\<close>

definition is_digit :: "char \<Rightarrow> bool" where
  "is_digit c = (48 \<le> (of_char c :: nat) \<and> (of_char c :: nat) \<le> 57)"

definition decimal :: "string \<Rightarrow> int" where
  "decimal s = fold (\<lambda>c n. 10 * n + (of_char c - 48)) s 0"

fun int_key :: driver where
  "int_key (JNum n) = Inr n"
| "int_key (JStr s) =
     (if s \<noteq> [] \<and> list_all is_digit s then Inr (decimal s)
      else Inl (DriverError ''invalid input syntax''))"
| "int_key v = Inl (DriverError ''invalid input syntax'')"

section \<open>Stores and requests for worked examples\<close>

text \<open>One campaign of two vouchers and no voucher yet: the scenario of the specification.\<close>

definition shop :: store where
  "shop = \<lparr>vouchers = [],
           voucher_campaigns =
             [\<lparr>campaign_id = 1, content = ''10% off'', quantity = 2,
               campaign_status = Some ''active'', created_at = ''2024-01-01 00:00:00''\<rparr>],
           next_id = 1\<rparr>"

definition grab :: "string \<Rightarrow> jsval \<Rightarrow> voucher_body" where
  "grab v campaignId =
     \<lparr>body_username = Some ''alice'', body_value = Some v, body_prize = Some ''p1'',
      body_status = Some ''Pending'', body_claimedAt = None, body_campaignId = campaignId\<rparr>"

text \<open>The same shop after its two vouchers have been taken.\<close>

definition sold_out :: store where
  "sold_out = \<lparr>vouchers =
                 [\<lparr>voucher_id = 1, username = Some ''alice'', value_col = Some ''10% off'',
                   prize = Some ''p1'', status = Some ''Pending'', claimedAt = None\<rparr>,
                  \<lparr>voucher_id = 2, username = Some ''bob'', value_col = Some ''10% off'',
                   prize = Some ''p2'', status = Some ''Issued'',
                   claimedAt = Some ''2024-01-02T10:00:00.000Z''\<rparr>],
               voucher_campaigns =
                 [\<lparr>campaign_id = 1, content = ''10% off'', quantity = 2,
                   campaign_status = Some ''active'', created_at = ''2024-01-01 00:00:00''\<rparr>],
               next_id = 3\<rparr>"

text \<open>
  The sold-out shop after one more voucher of the same value was taken without naming the
  campaign: three vouchers against a quantity of two.
\<close>

definition oversold :: store where
  "oversold = \<lparr>vouchers =
                 [\<lparr>voucher_id = 1, username = Some ''alice'', value_col = Some ''10% off'',
                   prize = Some ''p1'', status = Some ''Pending'', claimedAt = None\<rparr>,
                  \<lparr>voucher_id = 2, username = Some ''bob'', value_col = Some ''10% off'',
                   prize = Some ''p2'', status = Some ''Issued'',
                   claimedAt = Some ''2024-01-02T10:00:00.000Z''\<rparr>,
                  \<lparr>voucher_id = 3, username = Some ''alice'', value_col = Some ''10% off'',
                   prize = Some ''p1'', status = Some ''Pending'', claimedAt = None\<rparr>],
               voucher_campaigns =
                 [\<lparr>campaign_id = 1, content = ''10% off'', quantity = 2,
                   campaign_status = Some ''active'', created_at = ''2024-01-01 00:00:00''\<rparr>],
               next_id = 4\<rparr>"

section \<open>Facts about the store operations\<close>


lemma dbGet_campaign_insert [simp]:
  "dbGet_campaign (insert_voucher st b) k = dbGet_campaign st k"
  by (simp add: dbGet_campaign_def insert_voucher_def)






section \<open>Campaign-bounded issuance\<close>




section \<open>What a request leaves in the store\<close>

text \<open>A request either inserts its voucher and reports success, or changes nothing.\<close>

lemma sql_post_cases:
  "sql_post_vouchers bind st b = (st', r) \<Longrightarrow>
     (r = Json_success True \<and> st' = insert_voucher st b) \<or> (r \<noteq> Json_success True \<and> st' = st)"
  by (auto simp: sql_post_vouchers_def sql_stock_guard_def Let_def
      split: if_splits option.splits sum.splits)

lemma mongo_post_cases:
  "mongo_post_vouchers objectId st b = (st', r) \<Longrightarrow>
     (r = Json_success True \<and> st' = insert_voucher st b) \<or> (r \<noteq> Json_success True \<and> st' = st)"
  by (auto simp: mongo_post_vouchers_def mongo_stock_guard_def Let_def
      split: if_splits option.splits sum.splits)

text \<open>
  Claim C2, as the code has it. Whenever \<^verbatim>\<open>POST /api/vouchers\<close> succeeds, with or without
  a campaign, the voucher it appends carries the fields of the request body as they came:
  its \<open>value\<close> is the value the caller supplied, and equals the campaign's content only
  if the caller sent that. No variant overwrites it.
\<close>

theorem persisted_value_is_the_callers:
  assumes "sql_post_vouchers bind st b = (st', Json_success True) \<or>
           mongo_post_vouchers bind st b = (st', Json_success True)"
  shows "vouchers st' = vouchers st @
           [\<lparr>voucher_id = next_id st, username = body_username b, value_col = body_value b,
             prize = body_prize b, status = body_status b, claimedAt = body_claimedAt b\<rparr>] \<and>
         value_col (last (vouchers st')) = body_value b"
proof -
  have "st' = insert_voucher st b"
    using assms sql_post_cases mongo_post_cases by blast
  then show ?thesis by (simp add: insert_voucher_def)
qed

text \<open>A request naming the campaign "10% off" with the value "free item".\<close>

theorem persisted_value_is_the_callers_witness:
  "mongo_post_vouchers int_key shop (grab ''free item'' (JNum 1))
     = (insert_voucher shop (grab ''free item'' (JNum 1)), Json_success True) \<and>
   vouchers (insert_voucher shop (grab ''free item'' (JNum 1))) =
     [\<lparr>voucher_id = 1, username = Some ''alice'', value_col = Some ''free item'',
       prize = Some ''p1'', status = Some ''Pending'', claimedAt = None\<rparr>]"
proof -
  have run: "mongo_post_vouchers int_key shop (grab ''free item'' (JNum 1))
     = (insert_voucher shop (grab ''free item'' (JNum 1)), Json_success True)"
    by (simp add: mongo_post_vouchers_def mongo_stock_guard_def findOne_campaign_def
        countDocuments_def shop_def grab_def)
  from persisted_value_is_the_callers [OF disjI2 [OF run]] run
  show ?thesis by (simp add: shop_def grab_def)
qed

text \<open>
  The same request refutes the claim as stated: the campaign exists, the request
  succeeds, and the stored value is "free item", not "10% off".
\<close>

theorem value_forced_to_content_counterexample:
  "map_option content (dbGet_campaign shop 1) = Some ''10% off'' \<and>
   snd (sql_post_vouchers int_key shop (grab ''free item'' (JNum 1))) = Json_success True \<and>
   map value_col (vouchers (fst (sql_post_vouchers int_key shop (grab ''free item'' (JNum 1)))))
     = [Some ''free item''] \<and>
   snd (mongo_post_vouchers int_key shop (grab ''free item'' (JNum 1))) = Json_success True \<and>
   map value_col (vouchers (fst (mongo_post_vouchers int_key shop (grab ''free item'' (JNum 1)))))
     = [Some ''free item'']"
  by (simp add: sql_post_vouchers_def sql_stock_guard_def count_for_campaign_def
      mongo_post_vouchers_def mongo_stock_guard_def findOne_campaign_def dbGet_campaign_def
      countDocuments_def insert_voucher_def shop_def grab_def)

text \<open>
  An identifier the driver accepts and no campaign carries: the MongoDB handler turns the
  request down with 400, the relational one reads \<^verbatim>\<open>campaign.quantity\<close> of
  \<^verbatim>\<open>undefined\<close> and answers 500.
\<close>

lemma mongo_unknown_campaign:
  assumes "truthy (body_campaignId b)" and "objectId (body_campaignId b) = Inr k"
    and "findOne_campaign st k = None"
  shows "mongo_post_vouchers objectId st b = (st, Status400 ''Campaign not found'')"
  using assms by (simp add: mongo_post_vouchers_def mongo_stock_guard_def)

lemma sql_unknown_campaign:
  assumes "truthy (body_campaignId b)" and "bind (body_campaignId b) = Inr k"
    and "dbGet_campaign st k = None"
  shows "sql_post_vouchers bind st b = (st, Status500 (TypeError ''quantity''))"
  using assms by (simp add: sql_post_vouchers_def sql_stock_guard_def)

text \<open>
  Claim C3 asks that a request whose \<open>campaignId\<close> resolves to no campaign be rejected with
  400 "Campaign not found" and create no voucher. Evaluated on the shop, whose only
  campaign has identifier 1, for \<open>campaignId = 7\<close>: the relational handler answers 500
  with the TypeError, the MongoDB handler 400 "Campaign not found"; neither creates a
  voucher.
\<close>

theorem sql_unknown_campaign_is_type_error:
  "dbGet_campaign shop 7 = None \<and>
   sql_post_vouchers int_key shop (grab ''10% off'' (JNum 7))
     = (shop, Status500 (TypeError ''quantity'')) \<and>
   mongo_post_vouchers int_key shop (grab ''10% off'' (JNum 7))
     = (shop, Status400 ''Campaign not found'')"
  by (simp add: sql_post_vouchers_def sql_stock_guard_def count_for_campaign_def
      mongo_post_vouchers_def mongo_stock_guard_def findOne_campaign_def dbGet_campaign_def
      shop_def grab_def)

text \<open>
  Claim C4. A request with no \<open>campaignId\<close> appends its voucher and succeeds, whatever
  the campaigns and vouchers in the store and whatever the driver: no stock check is made.
\<close>

theorem no_campaignId_always_inserts:
  assumes "body_campaignId b = JUndefined"
  shows "sql_post_vouchers bind st b = (insert_voucher st b, Json_success True) \<and>
         mongo_post_vouchers objectId st b = (insert_voucher st b, Json_success True) \<and>
         vouchers (insert_voucher st b) = vouchers st @
           [\<lparr>voucher_id = next_id st, username = body_username b, value_col = body_value b,
             prize = body_prize b, status = body_status b, claimedAt = body_claimedAt b\<rparr>]"
  using assms by (simp add: sql_post_vouchers_def mongo_post_vouchers_def insert_voucher_def)

text \<open>The sold-out shop still takes a third "10% off" voucher from such a request.\<close>

theorem no_campaignId_always_inserts_witness:
  "countDocuments (vouchers sold_out) ''10% off'' = 2 \<and>
   map_option quantity (dbGet_campaign sold_out 1) = Some 2 \<and>
   snd (sql_post_vouchers int_key sold_out (grab ''10% off'' JUndefined)) = Json_success True \<and>
   snd (mongo_post_vouchers int_key sold_out (grab ''10% off'' JUndefined)) = Json_success True \<and>
   countDocuments (vouchers (fst (mongo_post_vouchers int_key sold_out (grab ''10% off'' JUndefined))))
     ''10% off'' = 3"
proof -
  have u: "body_campaignId (grab ''10% off'' JUndefined) = JUndefined"
    by (simp add: grab_def)
  from no_campaignId_always_inserts [OF u, of int_key sold_out int_key]
  show ?thesis
    by (simp add: countDocuments_def dbGet_campaign_def sold_out_def grab_def)
qed

text \<open>
  Claim C5. A request that is not answered with success (400 "Out of stock", 400
  "Campaign not found", or a 500) leaves the store as it was: no voucher is created.
\<close>

theorem rejected_request_creates_nothing:
  assumes "sql_post_vouchers bind st b = (st', r) \<or> mongo_post_vouchers bind st b = (st', r)"
    and "r \<noteq> Json_success True"
  shows "st' = st"
  using assms sql_post_cases mongo_post_cases by blast

text \<open>One rejection of each kind, on the sold-out shop.\<close>

theorem rejected_request_creates_nothing_witness:
  "sql_post_vouchers int_key sold_out (grab ''10% off'' (JNum 1))
     = (sold_out, Status400 ''Out of stock'') \<and>
   mongo_post_vouchers int_key sold_out (grab ''10% off'' (JNum 7))
     = (sold_out, Status400 ''Campaign not found'')"
proof -
  obtain s1 where a: "sql_post_vouchers int_key sold_out (grab ''10% off'' (JNum 1))
       = (s1, Status400 ''Out of stock'')"
    by (simp add: sql_post_vouchers_def sql_stock_guard_def count_for_campaign_def
        dbGet_campaign_def countDocuments_def sold_out_def grab_def)
  obtain s2 where b: "mongo_post_vouchers int_key sold_out (grab ''10% off'' (JNum 7))
       = (s2, Status400 ''Campaign not found'')"
    by (simp add: mongo_post_vouchers_def mongo_stock_guard_def findOne_campaign_def
        sold_out_def grab_def)
  have "s1 = sold_out"
    using rejected_request_creates_nothing [OF disjI1 [OF a]] by simp
  moreover have "s2 = sold_out"
    using rejected_request_creates_nothing [OF disjI2 [OF b]] by simp
  ultimately show ?thesis using a b by simp
qed

text \<open>
  Claim C10. The presence test is truthiness: a request whose \<open>campaignId\<close> is falsy
  (\<open>0\<close>, the empty string, \<open>null\<close>, \<open>undefined\<close>, \<open>false\<close>) skips the stock check, whatever
  the campaigns and the driver: the store gains exactly one voucher, which carries the
  fields of the request body under the next identifier, the answer is success, and store
  and answer are those of the same request with \<open>campaignId\<close> absent.
\<close>

theorem falsy_campaignId_skips_stock_check:
  assumes "\<not> truthy (body_campaignId b)"
  shows "sql_post_vouchers bind st b =
           (st\<lparr>vouchers := vouchers st @
                 [\<lparr>voucher_id = next_id st, username = body_username b,
                   value_col = body_value b, prize = body_prize b, status = body_status b,
                   claimedAt = body_claimedAt b\<rparr>],
               next_id := next_id st + 1\<rparr>,
            Json_success True) \<and>
         mongo_post_vouchers objectId st b =
           (st\<lparr>vouchers := vouchers st @
                 [\<lparr>voucher_id = next_id st, username = body_username b,
                   value_col = body_value b, prize = body_prize b, status = body_status b,
                   claimedAt = body_claimedAt b\<rparr>],
               next_id := next_id st + 1\<rparr>,
            Json_success True) \<and>
         sql_post_vouchers bind st b = sql_post_vouchers bind st (b\<lparr>body_campaignId := JUndefined\<rparr>) \<and>
         mongo_post_vouchers objectId st b
           = mongo_post_vouchers objectId st (b\<lparr>body_campaignId := JUndefined\<rparr>)"
  using assms by (simp add: sql_post_vouchers_def mongo_post_vouchers_def insert_voucher_def)

text \<open>
  The four falsy values of the claim, each against the sold-out shop: the third voucher
  is stored as the caller sent it.
\<close>

theorem falsy_campaignId_skips_stock_check_witness:
  "\<not> truthy (JNum 0) \<and> \<not> truthy (JStr []) \<and> \<not> truthy JNull \<and> \<not> truthy JUndefined \<and>
   map_option quantity (dbGet_campaign sold_out 1) = Some 2 \<and>
   countDocuments (vouchers sold_out) ''10% off'' = 2 \<and>
   sql_post_vouchers int_key sold_out (grab ''10% off'' (JNum 0)) = (oversold, Json_success True) \<and>
   mongo_post_vouchers int_key sold_out (grab ''10% off'' (JStr [])) = (oversold, Json_success True) \<and>
   sql_post_vouchers int_key sold_out (grab ''10% off'' JNull) = (oversold, Json_success True) \<and>
   mongo_post_vouchers int_key sold_out (grab ''10% off'' JUndefined) = (oversold, Json_success True) \<and>
   vouchers oversold = vouchers sold_out @
     [\<lparr>voucher_id = 3, username = Some ''alice'', value_col = Some ''10% off'',
       prize = Some ''p1'', status = Some ''Pending'', claimedAt = None\<rparr>]"
proof -
  have f: "\<not> truthy (body_campaignId (grab ''10% off'' (JNum 0)))"
      "\<not> truthy (body_campaignId (grab ''10% off'' (JStr [])))"
      "\<not> truthy (body_campaignId (grab ''10% off'' JNull))"
      "\<not> truthy (body_campaignId (grab ''10% off'' JUndefined))"
    by (simp_all add: grab_def)
  note T = falsy_campaignId_skips_stock_check [of _ int_key sold_out int_key]
  from T [OF f(1)] T [OF f(2)] T [OF f(3)] T [OF f(4)]
  show ?thesis
    by (simp add: countDocuments_def dbGet_campaign_def sold_out_def oversold_def grab_def)
qed

section \<open>Status updates\<close>

text \<open>Neither form of the update touches the identifier, the user, the value or the prize.\<close>

lemma sql_set_clause_keeps:
  "voucher_id (sql_set_clause now s v) = voucher_id v"
  "username (sql_set_clause now s v) = username v"
  "value_col (sql_set_clause now s v) = value_col v"
  "prize (sql_set_clause now s v) = prize v"
  by (simp_all add: sql_set_clause_def)

lemma apply_set_keeps:
  "voucher_id (apply_set u v) = voucher_id v"
  "username (apply_set u v) = username v"
  "value_col (apply_set u v) = value_col v"
  "prize (apply_set u v) = prize v"
  by (simp_all add: apply_set_def)

text \<open>The MongoDB update document has the effect of the relational SET clause.\<close>

lemma apply_set_mongo_update_doc:
  "apply_set (mongo_update_doc now s) v = sql_set_clause now s v"
  by (simp add: apply_set_def mongo_update_doc_def sql_set_clause_def)

text \<open>The addressed voucher after the update is the updated addressed voucher.\<close>

lemma find_sql_update_where_id:
  assumes "\<And>v. voucher_id (f v) = voucher_id v"
  shows "find (\<lambda>v. voucher_id v = k) (sql_update_where_id k f vs) =
         map_option f (find (\<lambda>v. voucher_id v = k) vs)"
  using assms by (induction vs) (simp_all add: sql_update_where_id_def)

lemma find_updateOne:
  assumes "\<And>v. voucher_id (f v) = voucher_id v"
  shows "find (\<lambda>v. voucher_id v = k) (fst (updateOne k f vs)) =
         map_option f (find (\<lambda>v. voucher_id v = k) vs)"
  using assms by (induction vs) (simp_all add: case_prod_beta)

lemma length_updateOne: "length (fst (updateOne k f vs)) = length vs"
  by (induction vs) (simp_all add: case_prod_beta)

lemma nth_updateOne:
  "i < length vs \<Longrightarrow>
     fst (updateOne k f vs) ! i = vs ! i \<or>
     (voucher_id (vs ! i) = k \<and> fst (updateOne k f vs) ! i = f (vs ! i))"
proof (induction vs arbitrary: i)
  case Nil
  then show ?case by simp
next
  case (Cons v vs)
  show ?case
  proof (cases i)
    case 0
    then show ?thesis by (simp add: case_prod_beta)
  next
    case (Suc n)
    with Cons.prems have "n < length vs" by simp
    from Cons.IH [OF this] Suc show ?thesis by (auto simp: case_prod_beta)
  qed
qed

lemma nth_sql_update_where_id:
  "i < length vs \<Longrightarrow>
     sql_update_where_id k f vs ! i = (if voucher_id (vs ! i) = k then f (vs ! i) else vs ! i)"
  by (simp add: sql_update_where_id_def)

text \<open>\<^verbatim>\<open>modifiedCount\<close> is positive exactly when the collection changed.\<close>

lemma updateOne_modifiedCount:
  "(0 < snd (updateOne k f vs)) = (fst (updateOne k f vs) \<noteq> vs)"
  by (induction vs) (auto simp: case_prod_beta)

lemma sql_put_vouchers:
  "vouchers (fst (sql_put_voucher_status bind now st idp s)) =
     (case bind (JStr idp) of
        Inl e \<Rightarrow> vouchers st
      | Inr k \<Rightarrow> sql_update_where_id k (sql_set_clause now s) (vouchers st))"
  by (simp add: sql_put_voucher_status_def split: sum.splits)

lemma mongo_put_vouchers:
  "vouchers (fst (mongo_put_voucher_status objectId now st idp s)) =
     (case objectId (JStr idp) of
        Inl e \<Rightarrow> vouchers st
      | Inr k \<Rightarrow> fst (updateOne k (sql_set_clause now s) (vouchers st)))"
proof -
  have "apply_set (mongo_update_doc now s) = sql_set_clause now s"
    by (rule ext) (rule apply_set_mongo_update_doc)
  then show ?thesis
    by (simp add: mongo_put_voucher_status_def split: sum.splits prod.splits)
qed

text \<open>
  Claim C6. Let the path parameter name the voucher \<open>v\<close>. After the update with status
  "Issued" the voucher has status "Issued" and \<open>claimedAt\<close> the current timestamp (not
  null); with "Void" it has status "Void" and \<open>claimedAt\<close> null; with any other status
  \<open>s\<close> it has status \<open>s\<close> and its \<open>claimedAt\<close> as before. Both handlers behave so.
\<close>

theorem status_update_sets_status_and_claimedAt:
  assumes id: "bind (JStr idp) = Inr k"
    and v: "find (\<lambda>v. voucher_id v = k) (vouchers st) = Some v"
    and h: "h = sql_put_voucher_status bind now \<or> h = mongo_put_voucher_status bind now"
  shows "find (\<lambda>v. voucher_id v = k) (vouchers (fst (h st idp (Some ''Issued''))))
           = Some (v\<lparr>status := Some ''Issued'', claimedAt := Some now\<rparr>) \<and>
         find (\<lambda>v. voucher_id v = k) (vouchers (fst (h st idp (Some ''Void''))))
           = Some (v\<lparr>status := Some ''Void'', claimedAt := None\<rparr>) \<and>
         (s \<noteq> Some ''Issued'' \<and> s \<noteq> Some ''Void'' \<longrightarrow>
            find (\<lambda>v. voucher_id v = k) (vouchers (fst (h st idp s))) = Some (v\<lparr>status := s\<rparr>))"
proof -
  have "find (\<lambda>v. voucher_id v = k) (vouchers (fst (h st idp t))) = Some (sql_set_clause now t v)"
    for t
    using h
  proof
    assume "h = sql_put_voucher_status bind now"
    then show ?thesis
      by (simp add: sql_put_vouchers id find_sql_update_where_id sql_set_clause_keeps v)
  next
    assume "h = mongo_put_voucher_status bind now"
    then show ?thesis
      by (simp add: mongo_put_vouchers id find_updateOne sql_set_clause_keeps v)
  qed
  then show ?thesis by (simp add: sql_set_clause_def)
qed

text \<open>Voucher 1 issued by the relational handler; voucher 2 voided, and set to "Pending",
  by the MongoDB handler.\<close>

theorem status_update_sets_status_and_claimedAt_witness:
  "int_key (JStr ''1'') = Inr 1 \<and>
   map (\<lambda>v. (voucher_id v, status v, claimedAt v)) (vouchers sold_out)
     = [(1, Some ''Pending'', None), (2, Some ''Issued'', Some ''2024-01-02T10:00:00.000Z'')] \<and>
   map_option (\<lambda>v. (status v, claimedAt v)) (find (\<lambda>v. voucher_id v = 1) (vouchers (fst
     (sql_put_voucher_status int_key ''2024-03-01T12:00:00.000Z'' sold_out ''1'' (Some ''Issued'')))))
     = Some (Some ''Issued'', Some ''2024-03-01T12:00:00.000Z'') \<and>
   map_option (\<lambda>v. (status v, claimedAt v)) (find (\<lambda>v. voucher_id v = 2) (vouchers (fst
     (mongo_put_voucher_status int_key ''2024-03-01T12:00:00.000Z'' sold_out ''2'' (Some ''Void'')))))
     = Some (Some ''Void'', None) \<and>
   map_option (\<lambda>v. (status v, claimedAt v)) (find (\<lambda>v. voucher_id v = 2) (vouchers (fst
     (mongo_put_voucher_status int_key ''2024-03-01T12:00:00.000Z'' sold_out ''2'' (Some ''Pending'')))))
     = Some (Some ''Pending'', Some ''2024-01-02T10:00:00.000Z'')"
proof -
  have k1: "int_key (JStr ''1'') = Inr 1" and k2: "int_key (JStr ''2'') = Inr 2"
    by (simp_all add: is_digit_def decimal_def)
  have v1: "find (\<lambda>v. voucher_id v = 1) (vouchers sold_out) = Some (hd (vouchers sold_out))"
    and v2: "find (\<lambda>v. voucher_id v = 2) (vouchers sold_out) = Some (last (vouchers sold_out))"
    by (simp_all add: sold_out_def)
  have p: "Some ''Pending'' \<noteq> Some ''Issued'' \<and> Some ''Pending'' \<noteq> Some ''Void''"
    by simp
  let ?now = "''2024-03-01T12:00:00.000Z''"
  have h1: "sql_put_voucher_status int_key ?now = sql_put_voucher_status int_key ?now \<or>
            sql_put_voucher_status int_key ?now = mongo_put_voucher_status int_key ?now"
    and h2: "mongo_put_voucher_status int_key ?now = sql_put_voucher_status int_key ?now \<or>
             mongo_put_voucher_status int_key ?now = mongo_put_voucher_status int_key ?now"
    by simp_all
  from status_update_sets_status_and_claimedAt [OF k1 v1 h1]
       status_update_sets_status_and_claimedAt [OF k2 v2 h2, of "Some ''Pending''"]
       k1 p
  show ?thesis by (simp add: sold_out_def)
qed

text \<open>
  Claim C7. A status update changes nothing but the vouchers table, and there keeps the
  number and order of rows, and every row's identifier, \<open>username\<close>, \<open>value\<close> and \<open>prize\<close>;
  a row whose identifier is not the one addressed is unchanged altogether.
\<close>

theorem status_update_frame:
  assumes h: "h = sql_put_voucher_status bind now \<or> h = mongo_put_voucher_status bind now"
    and run: "h st idp s = (st', r)"
  shows "voucher_campaigns st' = voucher_campaigns st \<and> next_id st' = next_id st \<and>
         length (vouchers st') = length (vouchers st) \<and>
         (\<forall>i<length (vouchers st).
            voucher_id (vouchers st' ! i) = voucher_id (vouchers st ! i) \<and>
            username (vouchers st' ! i) = username (vouchers st ! i) \<and>
            value_col (vouchers st' ! i) = value_col (vouchers st ! i) \<and>
            prize (vouchers st' ! i) = prize (vouchers st ! i) \<and>
            (bind (JStr idp) \<noteq> Inr (voucher_id (vouchers st ! i)) \<longrightarrow>
               vouchers st' ! i = vouchers st ! i))"
proof -
  have st': "st' = fst (h st idp s)" using run by simp
  have other: "voucher_campaigns st' = voucher_campaigns st \<and> next_id st' = next_id st"
    using h unfolding st'
    by (auto simp: sql_put_voucher_status_def mongo_put_voucher_status_def
        split: sum.splits prod.splits)
  have vs: "vouchers st' = vouchers st \<or>
            (\<exists>k. bind (JStr idp) = Inr k \<and>
              (vouchers st' = sql_update_where_id k (sql_set_clause now s) (vouchers st) \<or>
               vouchers st' = fst (updateOne k (sql_set_clause now s) (vouchers st))))"
    using h unfolding st'
    by (auto simp: sql_put_vouchers mongo_put_vouchers split: sum.splits)
  have len: "length (vouchers st') = length (vouchers st)"
    using vs by (auto simp: sql_update_where_id_def length_updateOne)
  have row: "vouchers st' ! i = vouchers st ! i \<or>
             (bind (JStr idp) = Inr (voucher_id (vouchers st ! i)) \<and>
              vouchers st' ! i = sql_set_clause now s (vouchers st ! i))"
    if i: "i < length (vouchers st)" for i
    using vs
  proof (elim disjE exE conjE)
    assume "vouchers st' = vouchers st"
    then show ?thesis by simp
  next
    fix k
    assume "bind (JStr idp) = Inr k"
      and "vouchers st' = sql_update_where_id k (sql_set_clause now s) (vouchers st)"
    then show ?thesis using i by (simp add: nth_sql_update_where_id)
  next
    fix k
    assume "bind (JStr idp) = Inr k"
      and "vouchers st' = fst (updateOne k (sql_set_clause now s) (vouchers st))"
    then show ?thesis using nth_updateOne [OF i, of k "sql_set_clause now s"] by auto
  qed
  have fields: "voucher_id (vouchers st' ! i) = voucher_id (vouchers st ! i) \<and>
            username (vouchers st' ! i) = username (vouchers st ! i) \<and>
            value_col (vouchers st' ! i) = value_col (vouchers st ! i) \<and>
            prize (vouchers st' ! i) = prize (vouchers st ! i) \<and>
            (bind (JStr idp) \<noteq> Inr (voucher_id (vouchers st ! i)) \<longrightarrow>
               vouchers st' ! i = vouchers st ! i)"
    if i: "i < length (vouchers st)" for i
    using row [OF i]
  proof
    assume "vouchers st' ! i = vouchers st ! i"
    then show ?thesis by simp
  next
    assume "bind (JStr idp) = Inr (voucher_id (vouchers st ! i)) \<and>
            vouchers st' ! i = sql_set_clause now s (vouchers st ! i)"
    then show ?thesis by (simp add: sql_set_clause_keeps)
  qed
  show ?thesis
    using other len fields by simp
qed

text \<open>Voiding voucher 2 leaves voucher 1 as it was, and voucher 2 with its user, value and prize.\<close>

theorem status_update_frame_witness:
  "int_key (JStr ''2'') = Inr 2 \<and>
   map voucher_id (vouchers sold_out) = [1, 2] \<and>
   length (vouchers (fst (mongo_put_voucher_status int_key ''2024-03-01T12:00:00.000Z''
      sold_out ''2'' (Some ''Void'')))) = 2 \<and>
   vouchers (fst (mongo_put_voucher_status int_key ''2024-03-01T12:00:00.000Z''
      sold_out ''2'' (Some ''Void''))) ! 0 = vouchers sold_out ! 0 \<and>
   username (vouchers (fst (mongo_put_voucher_status int_key ''2024-03-01T12:00:00.000Z''
      sold_out ''2'' (Some ''Void''))) ! 1) = Some ''bob'' \<and>
   value_col (vouchers (fst (mongo_put_voucher_status int_key ''2024-03-01T12:00:00.000Z''
      sold_out ''2'' (Some ''Void''))) ! 1) = Some ''10% off'' \<and>
   prize (vouchers (fst (mongo_put_voucher_status int_key ''2024-03-01T12:00:00.000Z''
      sold_out ''2'' (Some ''Void''))) ! 1) = Some ''p2'' \<and>
   voucher_campaigns (fst (mongo_put_voucher_status int_key ''2024-03-01T12:00:00.000Z''
      sold_out ''2'' (Some ''Void''))) = voucher_campaigns sold_out"
proof -
  let ?now = "''2024-03-01T12:00:00.000Z''"
  let ?h = "mongo_put_voucher_status int_key ?now"
  have h: "?h = sql_put_voucher_status int_key ?now \<or> ?h = mongo_put_voucher_status int_key ?now"
    by simp
  obtain st' r where run: "?h sold_out ''2'' (Some ''Void'') = (st', r)"
    by (cases "?h sold_out ''2'' (Some ''Void'')")
  have k: "int_key (JStr ''2'') = Inr 2"
    by (simp add: is_digit_def decimal_def)
  have ids: "map voucher_id (vouchers sold_out) = [1, 2]"
    and len: "length (vouchers sold_out) = 2"
    by (simp_all add: sold_out_def)
  note T = status_update_frame [OF h run]
  have l: "length (vouchers st') = 2" and c: "voucher_campaigns st' = voucher_campaigns sold_out"
    using T len by simp_all
  have rows: "\<forall>i<2.
            voucher_id (vouchers st' ! i) = voucher_id (vouchers sold_out ! i) \<and>
            username (vouchers st' ! i) = username (vouchers sold_out ! i) \<and>
            value_col (vouchers st' ! i) = value_col (vouchers sold_out ! i) \<and>
            prize (vouchers st' ! i) = prize (vouchers sold_out ! i) \<and>
            (int_key (JStr ''2'') \<noteq> Inr (voucher_id (vouchers sold_out ! i)) \<longrightarrow>
               vouchers st' ! i = vouchers sold_out ! i)"
    using T len by simp
  have r0: "vouchers st' ! 0 = vouchers sold_out ! 0"
    using rows k by (simp add: sold_out_def)
  have r1: "username (vouchers st' ! 1) = Some ''bob''"
      "value_col (vouchers st' ! 1) = Some ''10% off''" "prize (vouchers st' ! 1) = Some ''p2''"
    using rows by (simp_all add: sold_out_def)
  from k ids l c r0 r1 run show ?thesis by simp
qed

text \<open>The MongoDB handler reports whether the store changed.\<close>

lemma mongo_success_iff_modified:
  assumes "mongo_put_voucher_status objectId now st idp s = (st', Json_success ok)"
  shows "ok = (vouchers st' \<noteq> vouchers st)"
proof (cases "objectId (JStr idp)")
  case (Inl e)
  with assms show ?thesis by (simp add: mongo_put_voucher_status_def)
next
  case (Inr k)
  let ?u = "updateOne k (apply_set (mongo_update_doc now s)) (vouchers st)"
  from assms Inr have "st' = st\<lparr>vouchers := fst ?u\<rparr>" and "ok = (0 < snd ?u)"
    by (simp_all add: mongo_put_voucher_status_def case_prod_beta Let_def)
  then show ?thesis by (simp add: updateOne_modifiedCount)
qed

text \<open>The relational handler reports success for every identifier the driver binds.\<close>

lemma sql_success_always:
  "bind (JStr idp) = Inr k \<Longrightarrow> snd (sql_put_voucher_status bind now st idp s) = Json_success True"
  by (simp add: sql_put_voucher_status_def)

text \<open>
  Claim C8 asks that \<open>success\<close> be true exactly when a voucher was modified. Evaluated on
  the sold-out shop for the identifier 999, which no voucher has: the relational handler
  changes nothing and answers \<^verbatim>\<open>{ success: true }\<close>; the MongoDB handler answers
  \<^verbatim>\<open>{ success: false }\<close>.
\<close>

theorem sql_status_update_of_missing_id_reports_success:
  "int_key (JStr ''999'') = Inr 999 \<and>
   find (\<lambda>v. voucher_id v = 999) (vouchers sold_out) = None \<and>
   sql_put_voucher_status int_key ''2024-03-01T12:00:00.000Z'' sold_out ''999'' (Some ''Void'')
     = (sold_out, Json_success True) \<and>
   mongo_put_voucher_status int_key ''2024-03-01T12:00:00.000Z'' sold_out ''999'' (Some ''Void'')
     = (sold_out, Json_success False)"
  by (simp add: sql_put_voucher_status_def mongo_put_voucher_status_def sql_update_where_id_def
      is_digit_def decimal_def sold_out_def)

section \<open>The count endpoint\<close>

text \<open>
  Claim C9, as the code has it. \<^verbatim>\<open>GET /api/vouchers/count\<close> answers \<^verbatim>\<open>{ count: 0 }\<close>
  when \<open>campaignId\<close> is missing (or otherwise falsy), and when the client binds the
  identifier and no campaign carries it. An identifier the client refuses to bind throws
  inside the \<^verbatim>\<open>try\<close> and is answered 500 with the exception's message. When the
  identifier denotes campaign \<open>C\<close>, the answer carries the number of vouchers whose value
  equals \<open>C\<close>'s content, in the form the client returns a count: a number from MongoDB,
  the \<^verbatim>\<open>COUNT(*)\<close> column as it came from the relational client.
\<close>

theorem count_endpoint:
  "(\<not> truthy campaignId \<longrightarrow>
      sql_get_vouchers_count bind column st campaignId = Json_count (JNum 0) \<and>
      mongo_get_vouchers_count bind st campaignId = Json_count (JNum 0)) \<and>
   (truthy campaignId \<and> bind campaignId = Inl e \<longrightarrow>
      sql_get_vouchers_count bind column st campaignId = Status500 e \<and>
      mongo_get_vouchers_count bind st campaignId = Status500 e) \<and>
   (truthy campaignId \<and> bind campaignId = Inr k \<and>
    find (\<lambda>c. campaign_id c = k) (voucher_campaigns st) = None \<longrightarrow>
      sql_get_vouchers_count bind column st campaignId = Json_count (JNum 0) \<and>
      mongo_get_vouchers_count bind st campaignId = Json_count (JNum 0)) \<and>
   (truthy campaignId \<and> bind campaignId = Inr k \<and>
    find (\<lambda>c. campaign_id c = k) (voucher_campaigns st) = Some C \<longrightarrow>
      sql_get_vouchers_count bind column st campaignId
        = Json_count (column (length (filter (\<lambda>v. value_col v = Some (content C)) (vouchers st)))) \<and>
      mongo_get_vouchers_count bind st campaignId
        = Json_count (JNum (int (length (filter (\<lambda>v. value_col v = Some (content C))
                                    (vouchers st))))))"
  by (simp add: sql_get_vouchers_count_def mongo_get_vouchers_count_def dbGet_campaign_def
      findOne_campaign_def countDocuments_def)

text \<open>
  No identifier, an empty one, a refused one, an unknown one, and the sold-out campaign
  through a client that returns the count as a number and through one that returns it as
  text.
\<close>

theorem count_endpoint_witness:
  "sql_get_vouchers_count int_key number_count sold_out JUndefined = Json_count (JNum 0) \<and>
   mongo_get_vouchers_count int_key sold_out (JStr []) = Json_count (JNum 0) \<and>
   int_key (JStr ''abc'') = Inl (DriverError ''invalid input syntax'') \<and>
   sql_get_vouchers_count int_key text_count sold_out (JStr ''abc'')
     = Status500 (DriverError ''invalid input syntax'') \<and>
   find (\<lambda>c. campaign_id c = 7) (voucher_campaigns sold_out) = None \<and>
   sql_get_vouchers_count int_key text_count sold_out (JStr ''7'') = Json_count (JNum 0) \<and>
   mongo_get_vouchers_count int_key sold_out (JStr ''7'') = Json_count (JNum 0) \<and>
   map_option content (find (\<lambda>c. campaign_id c = 1) (voucher_campaigns sold_out))
     = Some ''10% off'' \<and>
   sql_get_vouchers_count int_key number_count sold_out (JStr ''1'') = Json_count (JNum 2) \<and>
   sql_get_vouchers_count int_key text_count sold_out (JStr ''1'') = Json_count (JStr ''2'') \<and>
   mongo_get_vouchers_count int_key sold_out (JStr ''1'') = Json_count (JNum 2)"
proof -
  define C where "C = \<lparr>campaign_id = 1, content = ''10% off'', quantity = 2,
    campaign_status = Some ''active'', created_at = ''2024-01-01 00:00:00''\<rparr>"
  have k7: "int_key (JStr ''7'') = Inr 7" and k1: "int_key (JStr ''1'') = Inr 1"
    and ka: "int_key (JStr ''abc'') = Inl (DriverError ''invalid input syntax'')"
    by (simp_all add: is_digit_def decimal_def)
  have n7: "find (\<lambda>c. campaign_id c = 7) (voucher_campaigns sold_out) = None"
    and c1: "find (\<lambda>c. campaign_id c = 1) (voucher_campaigns sold_out) = Some C"
    by (simp_all add: sold_out_def C_def)
  have n: "length (filter (\<lambda>v. value_col v = Some (content C)) (vouchers sold_out)) = 2"
    by (simp add: sold_out_def C_def)
  have two: "decimal_text 2 = ''2''"
    by code_simp
  from count_endpoint [of JUndefined int_key number_count sold_out]
       count_endpoint [of "JStr []" int_key number_count sold_out]
       count_endpoint [of "JStr ''abc''" int_key text_count sold_out
                          "DriverError ''invalid input syntax''"] ka
       count_endpoint [of "JStr ''7''" int_key text_count sold_out _ 7] k7 n7
       count_endpoint [of "JStr ''1''" int_key number_count sold_out _ 1 C]
       count_endpoint [of "JStr ''1''" int_key text_count sold_out _ 1 C] k1 c1 n two
  show ?thesis by (simp add: C_def number_count_def text_count_def)
qed

text \<open>
  The claim as stated fails in two places. The identifier "abc" names no campaign, and
  both handlers answer it 500 where the client refuses it, not \<^verbatim>\<open>{ count: 0 }\<close>. And for
  the existing campaign with two vouchers the relational handler on a client that returns
  counts as text sends the string "2", not the number 2.
\<close>

theorem count_endpoint_counterexample:
  "map campaign_id (voucher_campaigns sold_out) = [1] \<and>
   int_key (JStr ''abc'') = Inl (DriverError ''invalid input syntax'') \<and>
   sql_get_vouchers_count int_key text_count sold_out (JStr ''abc'')
     = Status500 (DriverError ''invalid input syntax'') \<and>
   mongo_get_vouchers_count int_key sold_out (JStr ''abc'')
     = Status500 (DriverError ''invalid input syntax'') \<and>
   length (filter (\<lambda>v. value_col v = Some ''10% off'') (vouchers sold_out)) = 2 \<and>
   sql_get_vouchers_count int_key text_count sold_out (JStr ''1'') = Json_count (JStr ''2'') \<and>
   Json_count (JStr ''2'') \<noteq> Json_count (JNum 2)"
proof -
  have two: "decimal_text (Suc (Suc 0)) = ''2''"
    by code_simp
  show ?thesis
    by (simp add: sql_get_vouchers_count_def mongo_get_vouchers_count_def dbGet_campaign_def
        findOne_campaign_def countDocuments_def text_count_def two is_digit_def decimal_def
        sold_out_def)
qed

end
